theory Spec2Isabelle
  imports Main "HOL-Library.Word" "HOL-Library.Sublist"
begin

unbundle bit_operations_syntax

section \<open>Data: buffers and JavaScript strings\<close>

text \<open>
  A \<open>Buffer\<close> is a sequence of bytes. A JavaScript string is a sequence of UTF-16 code
  units; this is what \<open>split\<close>, \<open>includes\<close>, \<open>startsWith\<close>, \<open>===\<close> and string
  concatenation of \<open>index.ts\<close> work on. String literals of the source are ASCII and are
  written \<open>js ''...''\<close>.
\<close>

type_synonym byte = "8 word"
type_synonym buffer = "byte list"
type_synonym jschar = "16 word"
type_synonym jsstring = "jschar list"

definition js :: "string \<Rightarrow> jsstring" where
  "js s = map of_char s"

definition ascii :: "string \<Rightarrow> buffer" where
  "ascii s = map of_char s"

definition CR :: char where "CR = CHR 0x0D"
definition LF :: char where "LF = CHR 0x0A"

definition CRLF :: string where
  "CRLF = [CR, LF]"

subsection \<open>\<open>buf.toString('utf-8')\<close> and \<open>Buffer.from(str, 'utf-8')\<close>\<close>

text \<open>
  \<open>buf.toString()\<close> decodes UTF-8: a well-formed sequence gives its code point, every
  maximal ill-formed part gives one U+FFFD, and the byte that ended an ill-formed part is
  read again as the start of the next sequence. The decoder state is the number of
  continuation bytes still needed, the code point collected so far, and the range allowed
  for the next continuation byte.
\<close>

definition utf16_of_cp :: "nat \<Rightarrow> jsstring" where
  "utf16_of_cp cp =
     (if cp < 0x10000 then [of_nat cp]
      else [of_nat (0xD800 + (cp - 0x10000) div 0x400),
            of_nat (0xDC00 + (cp - 0x10000) mod 0x400)])"

fun utf8_decode :: "nat \<Rightarrow> nat \<Rightarrow> nat \<Rightarrow> nat \<Rightarrow> buffer \<Rightarrow> nat list" where
  "utf8_decode needed cp lo hi [] = (if needed = 0 then [] else [0xFFFD])"
| "utf8_decode needed cp lo hi (b # bs) =
     (if needed \<noteq> 0 \<and> lo \<le> unat b \<and> unat b \<le> hi
      then (if needed = 1
            then (cp * 64 + unat b mod 64) # utf8_decode 0 0 0x80 0xBF bs
            else utf8_decode (needed - 1) (cp * 64 + unat b mod 64) 0x80 0xBF bs)
      else (if needed \<noteq> 0 then [0xFFFD] else []) @
           (if unat b < 0x80 then unat b # utf8_decode 0 0 0x80 0xBF bs
            else if 0xC2 \<le> unat b \<and> unat b \<le> 0xDF
              then utf8_decode 1 (unat b mod 32) 0x80 0xBF bs
            else if 0xE0 \<le> unat b \<and> unat b \<le> 0xEF
              then utf8_decode 2 (unat b mod 16)
                     (if unat b = 0xE0 then 0xA0 else 0x80)
                     (if unat b = 0xED then 0x9F else 0xBF) bs
            else if 0xF0 \<le> unat b \<and> unat b \<le> 0xF4
              then utf8_decode 3 (unat b mod 8)
                     (if unat b = 0xF0 then 0x90 else 0x80)
                     (if unat b = 0xF4 then 0x8F else 0xBF) bs
            else 0xFFFD # utf8_decode 0 0 0x80 0xBF bs))"

definition toString :: "buffer \<Rightarrow> jsstring" where
  "toString data = concat (map utf16_of_cp (utf8_decode 0 0 0x80 0xBF data))"

text \<open>
  \<open>Buffer.from(str, 'utf-8')\<close> encodes the code points of the string; a surrogate pair
  is one code point, a surrogate outside a pair is written as U+FFFD.
\<close>

definition utf8_bytes :: "nat \<Rightarrow> buffer" where
  "utf8_bytes cp =
     (if cp < 0x80 then [of_nat cp]
      else if cp < 0x800 then [of_nat (0xC0 + cp div 64), of_nat (0x80 + cp mod 64)]
      else if cp < 0x10000
        then [of_nat (0xE0 + cp div 4096), of_nat (0x80 + cp div 64 mod 64),
              of_nat (0x80 + cp mod 64)]
      else [of_nat (0xF0 + cp div 262144), of_nat (0x80 + cp div 4096 mod 64),
            of_nat (0x80 + cp div 64 mod 64), of_nat (0x80 + cp mod 64)])"

definition is_surrogate :: "jschar \<Rightarrow> bool" where
  "is_surrogate u = (0xD800 \<le> unat u \<and> unat u \<le> 0xDFFF)"

definition is_pair :: "jschar \<Rightarrow> jschar \<Rightarrow> bool" where
  "is_pair u v = (0xD800 \<le> unat u \<and> unat u \<le> 0xDBFF \<and> 0xDC00 \<le> unat v \<and> unat v \<le> 0xDFFF)"

fun Buffer_from :: "jsstring \<Rightarrow> buffer" where
  "Buffer_from [] = []"
| "Buffer_from [u] = utf8_bytes (if is_surrogate u then 0xFFFD else unat u)"
| "Buffer_from (u # v # us) =
     (if is_pair u v
      then utf8_bytes (0x10000 + (unat u - 0xD800) * 0x400 + (unat v - 0xDC00)) @ Buffer_from us
      else utf8_bytes (if is_surrogate u then 0xFFFD else unat u) @ Buffer_from (v # us))"

subsection \<open>String and array methods\<close>

fun startsWith :: "'a list \<Rightarrow> 'a list \<Rightarrow> bool" where
  "startsWith s [] = True"
| "startsWith [] (c # cs) = False"
| "startsWith (x # xs) (c # cs) = (x = c \<and> startsWith xs cs)"

fun includes' :: "'a list \<Rightarrow> 'a list \<Rightarrow> bool" where
  "includes' [] n = (n = [])"
| "includes' (x # xs) n = (startsWith (x # xs) n \<or> includes' xs n)"

text \<open>
  \<open>str.split(sep)\<close> for a separator that is not empty (the source splits on
  \<open>'\r\n'\<close>, \<open>' '\<close> and \<open>': '\<close>): the pieces between successive occurrences of the
  separator, found left to right; the result is never empty. \<open>acc\<close> is the current
  piece, reversed.
\<close>

function split_aux :: "'a list \<Rightarrow> 'a list \<Rightarrow> 'a list \<Rightarrow> 'a list list" where
  "split_aux sep acc [] = [rev acc]"
| "split_aux sep acc (c # s) =
     (if sep \<noteq> [] \<and> startsWith (c # s) sep
      then rev acc # split_aux sep [] (drop (length sep) (c # s))
      else split_aux sep (c # acc) s)"
  by pat_completeness auto
termination
  by (relation "measure (\<lambda>(sep, acc, s). length s)") auto

definition split :: "'a list \<Rightarrow> 'a list \<Rightarrow> 'a list list" where
  "split s sep = split_aux sep [] s"

text \<open>\<open>arr[i]\<close>: \<open>undefined\<close> (here \<open>None\<close>) beyond the end.\<close>

fun at_index :: "'a list \<Rightarrow> nat \<Rightarrow> 'a option" where
  "at_index [] i = None"
| "at_index (x # xs) 0 = Some x"
| "at_index (x # xs) (Suc i) = at_index xs i"

fun join :: "'a list list \<Rightarrow> 'a list \<Rightarrow> 'a list" where
  "join [] sep = []"
| "join [x] sep = x"
| "join (x # y # ys) sep = x @ sep @ join (y # ys) sep"

text \<open>The decimal text of a non-negative integer, as a template literal prints it.\<close>

fun decimal :: "nat \<Rightarrow> jsstring" where
  "decimal n =
     (if n < 10 then [of_nat (48 + n)]
      else decimal (n div 10) @ [of_nat (48 + n mod 10)])"

declare decimal.simps [simp del]

section \<open>The handshake accept value\<close>

subsection \<open>SHA-1 (\<open>crypto.createHash('sha1')\<close>)\<close>

text \<open>
  The hash is Node's; it is written here as FIPS 180-4 defines it. 32-bit words are
  natural numbers below \<open>2 ^ 32\<close>, with the wrap-around written out.
\<close>

definition add32 :: "nat \<Rightarrow> nat \<Rightarrow> nat" where
  "add32 x y = (x + y) mod 4294967296"

definition not32 :: "nat \<Rightarrow> nat" where
  "not32 x = 4294967295 - x mod 4294967296"

definition rotl32 :: "nat \<Rightarrow> nat \<Rightarrow> nat" where
  "rotl32 n x = (x * 2 ^ n) mod 4294967296 + x mod 4294967296 div 2 ^ (32 - n)"

definition sha1_K :: "nat \<Rightarrow> nat" where
  "sha1_K t = (if t < 20 then 0x5A827999 else if t < 40 then 0x6ED9EBA1
               else if t < 60 then 0x8F1BBCDC else 0xCA62C1D6)"

definition sha1_f :: "nat \<Rightarrow> nat \<Rightarrow> nat \<Rightarrow> nat \<Rightarrow> nat" where
  "sha1_f t b c d =
     (if t < 20 then (b AND c) OR (not32 b AND d)
      else if t < 40 then b XOR c XOR d
      else if t < 60 then (b AND c) OR (b AND d) OR (c AND d)
      else b XOR c XOR d)"

fun be32 :: "nat list \<Rightarrow> nat list" where
  "be32 (b0 # b1 # b2 # b3 # bs) = (b0 * 16777216 + b1 * 65536 + b2 * 256 + b3) # be32 bs"
| "be32 bs = []"

text \<open>The message schedule: \<open>w\<close> holds \<open>W\<^sub>0 \<dots> W\<^bsub>t-1\<^esub>\<close>.\<close>

function sha1_schedule :: "nat \<Rightarrow> nat list \<Rightarrow> nat list" where
  "sha1_schedule t w =
     (if t < 80
      then sha1_schedule (t + 1)
             (w @ [rotl32 1 (w ! (t - 3) XOR w ! (t - 8) XOR w ! (t - 14) XOR w ! (t - 16))])
      else w)"
  by pat_completeness auto
termination
  by (relation "measure (\<lambda>(t, w). 80 - t)") auto

declare sha1_schedule.simps [simp del]

type_synonym sha1_state = "nat \<times> nat \<times> nat \<times> nat \<times> nat"

function sha1_rounds :: "nat \<Rightarrow> nat list \<Rightarrow> sha1_state \<Rightarrow> sha1_state" where
  "sha1_rounds t w (a, b, c, d, e) =
     (if t < 80
      then sha1_rounds (t + 1) w
             (add32 (add32 (add32 (add32 (rotl32 5 a) (sha1_f t b c d)) e) (sha1_K t)) (w ! t),
              a, rotl32 30 b, c, d)
      else (a, b, c, d, e))"
  by pat_completeness auto
termination
  by (relation "measure (\<lambda>(t, w, s). 80 - t)") auto

declare sha1_rounds.simps [simp del]

fun sha1_block :: "sha1_state \<Rightarrow> nat list \<Rightarrow> sha1_state" where
  "sha1_block (h0, h1, h2, h3, h4) block =
     (case sha1_rounds 0 (sha1_schedule 16 (be32 block)) (h0, h1, h2, h3, h4) of
        (a, b, c, d, e) \<Rightarrow> (add32 h0 a, add32 h1 b, add32 h2 c, add32 h3 d, add32 h4 e))"

fun sha1_blocks :: "sha1_state \<Rightarrow> nat list \<Rightarrow> sha1_state" where
  "sha1_blocks h [] = h"
| "sha1_blocks h (b # bs) = sha1_blocks (sha1_block h (take 64 (b # bs))) (drop 64 (b # bs))"

definition be_bytes32 :: "nat \<Rightarrow> buffer" where
  "be_bytes32 w =
     [of_nat (w div 16777216), of_nat (w div 65536 mod 256), of_nat (w div 256 mod 256),
      of_nat (w mod 256)]"

definition be_bytes64 :: "nat \<Rightarrow> nat list" where
  "be_bytes64 n = map (\<lambda>i. n div 256 ^ i mod 256) [7, 6, 5, 4, 3, 2, 1, 0]"

definition sha1_pad :: "nat list \<Rightarrow> nat list" where
  "sha1_pad m =
     m @ [0x80] @ replicate ((119 - length m mod 64) mod 64) 0
       @ be_bytes64 (8 * length m mod 2 ^ 64)"

definition sha1 :: "buffer \<Rightarrow> buffer" where
  "sha1 m =
     (case sha1_blocks (0x67452301, 0xEFCDAB89, 0x98BADCFE, 0x10325476, 0xC3D2E1F0)
             (sha1_pad (map unat m)) of
        (h0, h1, h2, h3, h4) \<Rightarrow>
          be_bytes32 h0 @ be_bytes32 h1 @ be_bytes32 h2 @ be_bytes32 h3 @ be_bytes32 h4)"

subsection \<open>Base64 (\<open>digest('base64')\<close>)\<close>

definition base64_alphabet :: string where
  "base64_alphabet = ''ABCDEFGHIJKLMNOPQRSTUVWXYZabcdefghijklmnopqrstuvwxyz0123456789+/''"

definition b64 :: "nat \<Rightarrow> char" where
  "b64 n = base64_alphabet ! n"

fun base64 :: "nat list \<Rightarrow> string" where
  "base64 [] = []"
| "base64 [a] = [b64 (a div 4), b64 (a mod 4 * 16), CHR ''='', CHR ''='']"
| "base64 [a, b] =
     [b64 (a div 4), b64 (a mod 4 * 16 + b div 16), b64 (b mod 16 * 4), CHR ''='']"
| "base64 (a # b # c # bs) =
     [b64 (a div 4), b64 (a mod 4 * 16 + b div 16), b64 (b mod 16 * 4 + c div 64),
      b64 (c mod 64)] @ base64 bs"

subsection \<open>\<open>generateAcceptValue\<close>\<close>

text \<open>
  \<open>update(str, 'binary')\<close> hashes one byte per code unit of the string, its low 8 bits.
\<close>

definition binary_bytes :: "jsstring \<Rightarrow> buffer" where
  "binary_bytes s = map ucast s"

definition generateAcceptValue :: "jsstring \<Rightarrow> jsstring" where
  "generateAcceptValue key =
     js (base64 (map unat (sha1 (binary_bytes (key @ js ''258EAFA5-E914-47DA-95CA-C5AB0DC85B11'')))))"

section \<open>Sockets and the server state\<close>

text \<open>
  A socket is known by the calls the server has made on it, oldest first:
  \<open>socket.write(...)\<close> with the bytes written (a string is written in UTF-8) and
  \<open>socket.end()\<close>. The server state is the log of every socket and the set
  \<open>sseClients\<close>. An exception thrown inside a handler is the value \<open>Inl\<close>.
\<close>

datatype socket_op = Write buffer | End

datatype error = TypeError | RangeError

record server =
  calls :: "nat \<Rightarrow> socket_op list"
  sseClients :: "nat set"

definition socket_write :: "nat \<Rightarrow> buffer \<Rightarrow> server \<Rightarrow> server" where
  "socket_write socket bytes srv =
     srv\<lparr>calls := (calls srv)(socket := calls srv socket @ [Write bytes])\<rparr>"

definition socket_end :: "nat \<Rightarrow> server \<Rightarrow> server" where
  "socket_end socket srv = srv\<lparr>calls := (calls srv)(socket := calls srv socket @ [End])\<rparr>"

text \<open>A server that has made no call yet and has no subscriber.\<close>

definition idle :: server where
  "idle = \<lparr>calls = (\<lambda>socket. []), sseClients = {}\<rparr>"

section \<open>The HTTP responder\<close>

definition httpStatusMessages :: "(nat \<times> jsstring) list" where
  "httpStatusMessages =
     [(200, js ''OK''), (201, js ''Created''), (202, js ''Accepted''), (204, js ''No Content''),
      (301, js ''Moved Permanently''), (302, js ''Found''), (304, js ''Not Modified''),
      (400, js ''Bad Request''), (401, js ''Unauthorized''), (403, js ''Forbidden''),
      (404, js ''Not Found''), (405, js ''Method Not Allowed''),
      (500, js ''Internal Server Error''), (501, js ''Not Implemented''),
      (502, js ''Bad Gateway''), (503, js ''Service Unavailable'')]"

definition buildStatusLine :: "nat \<Rightarrow> jsstring" where
  "buildStatusLine status =
     (let message = (case map_of httpStatusMessages status of
                       None \<Rightarrow> js ''Unknown Status''
                     | Some m \<Rightarrow> if m \<noteq> [] then m else js ''Unknown Status'')
      in js ''HTTP/1.1 '' @ decimal status @ js '' '' @ message @ js CRLF)"

text \<open>
  A headers object: its entries in insertion order. Assigning to a key that is there
  replaces the value in place, to a new key adds an entry at the end.
\<close>

type_synonym headers = "(jsstring \<times> jsstring) list"

fun set_header :: "headers \<Rightarrow> jsstring \<Rightarrow> jsstring \<Rightarrow> headers" where
  "set_header [] k v = [(k, v)]"
| "set_header ((k', v') # hs) k v =
     (if k' = k then (k, v) # hs else (k', v') # set_header hs k v)"

definition buildHeaders :: "headers \<Rightarrow> jsstring" where
  "buildHeaders hs = join (map (\<lambda>(key, value). key @ js '': '' @ value) hs) (js CRLF) @ js CRLF"

definition buildResponse :: "nat \<Rightarrow> headers \<Rightarrow> jsstring \<Rightarrow> jsstring" where
  "buildResponse status hs body =
     (let statusLine = buildStatusLine status;
          headerLines = buildHeaders hs
      in statusLine @ headerLines @ js CRLF @ body)"

definition handleSseRequest :: "nat \<Rightarrow> server \<Rightarrow> server" where
  "handleSseRequest socket srv =
     (let headers = js (''HTTP/1.1 200 OK'' @ CRLF @ ''Content-Type: text/event-stream'' @ CRLF
                        @ ''Cache-Control: no-cache'' @ CRLF @ ''Connection: keep-alive'' @ CRLF
                        @ ''Access-Control-Allow-Origin: *'' @ CRLF @ CRLF);
          srv1 = socket_write socket (Buffer_from headers) srv
      in srv1\<lparr>sseClients := insert socket (sseClients srv1)\<rparr>)"

text \<open>
  The routing of \<open>handleHttpRequest\<close> (the \<open>if\<close> chain on \<open>method\<close> and \<open>path\<close>):
  the status, headers and body to answer with, or the hand-over to \<open>handleSseRequest\<close>.
  \<open>path\<close> is \<open>undefined\<close> when the request line has no space.
\<close>

datatype route = Respond nat headers jsstring | Subscribe

definition routeRequest :: "jsstring option \<Rightarrow> jsstring option \<Rightarrow> route" where
  "routeRequest method path =
     (let responseHeaders = [(js ''Content-Type'', js ''text/plain''),
                             (js ''Access-Control-Allow-Origin'', js ''*'')]
      in if method = Some (js ''GET'') \<and> path = Some (js ''/'')
           then Respond 200 responseHeaders (js ''Hello, world!'')
         else if method = Some (js ''GET'') \<and> path = Some (js ''/websocket'')
           then Respond 426
                  (set_header (set_header responseHeaders (js ''Upgrade'') (js ''websocket''))
                     (js ''Connection'') (js ''Upgrade''))
                  (js ''Upgrade Required'')
         else if method = Some (js ''GET'') \<and> path = Some (js ''/serverside-events'')
           then Subscribe
         else Respond 404 responseHeaders (js ''Not Found''))"

text \<open>
  The method and path of a request buffer: the first two pieces of the first line.
  \<open>split\<close> never gives an empty array; were the first line missing, taking its
  \<open>split\<close> would throw.
\<close>

definition requestTarget :: "buffer \<Rightarrow> error + (jsstring option \<times> jsstring option)" where
  "requestTarget data =
     (case split (toString data) (js CRLF) of
        [] \<Rightarrow> Inl TypeError
      | requestLine # headerLines \<Rightarrow>
          (let parts = split requestLine (js '' '')
           in Inr (at_index parts 0, at_index parts 1)))"

definition handleHttpRequest :: "buffer \<Rightarrow> nat \<Rightarrow> server \<Rightarrow> error + server" where
  "handleHttpRequest data socket srv =
     (case requestTarget data of
        Inl e \<Rightarrow> Inl e
      | Inr (method, path) \<Rightarrow>
          (case routeRequest method path of
             Subscribe \<Rightarrow> Inr (handleSseRequest socket srv)
           | Respond status responseHeaders responseBody \<Rightarrow>
               (let response = buildResponse status responseHeaders responseBody;
                    srv1 = socket_write socket (Buffer_from response) srv
                in Inr (if status \<noteq> 426 then socket_end socket srv1 else srv1))))"

section \<open>The WebSocket handshake\<close>

definition handshakeKey :: "buffer \<Rightarrow> jsstring option" where
  "handshakeKey data =
     (let headers = split (toString data) (js CRLF)
      in case find (\<lambda>header. startsWith header (js ''Sec-WebSocket-Key'')) headers of
           None \<Rightarrow> None
         | Some header \<Rightarrow> at_index (split header (js '': '')) 1)"

definition handleWebSocketHandshake :: "buffer \<Rightarrow> nat \<Rightarrow> server \<Rightarrow> server" where
  "handleWebSocketHandshake data socket srv =
     (case handshakeKey data of
        None \<Rightarrow> srv
      | Some key \<Rightarrow>
          if key \<noteq> []
          then (let acceptKey = generateAcceptValue key;
                    response = js (''HTTP/1.1 101 Switching Protocols'' @ CRLF
                                   @ ''Upgrade: websocket'' @ CRLF
                                   @ ''Connection: Upgrade'' @ CRLF
                                   @ ''Sec-WebSocket-Accept: '') @ acceptKey @ js CRLF
                               @ js (''Access-Control-Allow-Origin: *'' @ CRLF @ CRLF)
                in socket_write socket (Buffer_from response) srv)
          else srv)"

section \<open>WebSocket frames\<close>

text \<open>
  \<open>data[i]\<close> is \<open>undefined\<close> beyond the end of the buffer, and a bitwise operator reads
  \<open>undefined\<close> as 0.
\<close>

definition byte_at :: "buffer \<Rightarrow> nat \<Rightarrow> byte" where
  "byte_at data i = (if i < length data then data ! i else 0)"

text \<open>
  \<open>buf.slice(start, end)\<close> for \<open>0 \<le> start\<close> and \<open>0 \<le> end\<close>: both are clamped to the
  length of the buffer.
\<close>

definition slice :: "buffer \<Rightarrow> nat \<Rightarrow> nat \<Rightarrow> buffer" where
  "slice data start end' = drop start (take end' data)"

text \<open>The big-endian value of a byte sequence.\<close>

fun be_value :: "nat \<Rightarrow> buffer \<Rightarrow> nat" where
  "be_value acc [] = acc"
| "be_value acc (b # bs) = be_value (acc * 256 + unat b) bs"

text \<open>\<open>readUInt16BE\<close> and \<open>readBigUInt64BE\<close> throw when the buffer ends too early.\<close>

definition readUInt16BE :: "buffer \<Rightarrow> nat \<Rightarrow> error + nat" where
  "readUInt16BE data off =
     (if off + 2 \<le> length data then Inr (be_value 0 (take 2 (drop off data)))
      else Inl RangeError)"

definition readBigUInt64BE :: "buffer \<Rightarrow> nat \<Rightarrow> error + nat" where
  "readBigUInt64BE data off =
     (if off + 8 \<le> length data then Inr (be_value 0 (take 8 (drop off data)))
      else Inl RangeError)"

text \<open>
  A JavaScript number is a double. \<open>to_double n\<close> is the double nearest to the
  non-negative integer \<open>n\<close>, ties to even: exact below \<open>2 ^ 53\<close>, a multiple of the
  spacing \<open>2 ^ (bit_length n - 53)\<close> above. \<open>Number(bigint)\<close> and \<open>+\<close> on such
  numbers round this way.
\<close>

fun bit_length :: "nat \<Rightarrow> nat" where
  "bit_length n = (if n = 0 then 0 else Suc (bit_length (n div 2)))"

declare bit_length.simps [simp del]

definition to_double :: "nat \<Rightarrow> nat" where
  "to_double n =
     (let p = 2 ^ (bit_length n - 53); q = n div p; r = n mod p
      in if p < 2 * r \<or> (2 * r = p \<and> q mod 2 = 1) then (q + 1) * p else q * p)"

definition js_add :: "nat \<Rightarrow> nat \<Rightarrow> nat" where
  "js_add x y = to_double (x + y)"

text \<open>
  \<open>payloadData.map((byte, idx) => byte ^ maskingKey[idx % 4])\<close>; an index beyond the end
  of the key gives \<open>undefined\<close>, which \<open>^\<close> reads as 0.
\<close>

fun unmask_from :: "nat \<Rightarrow> buffer \<Rightarrow> buffer \<Rightarrow> buffer" where
  "unmask_from idx maskingKey [] = []"
| "unmask_from idx maskingKey (b # bs) =
     (b XOR byte_at maskingKey (idx mod 4)) # unmask_from (idx + 1) maskingKey bs"

definition unmask :: "buffer \<Rightarrow> buffer \<Rightarrow> buffer" where
  "unmask payloadData maskingKey = unmask_from 0 maskingKey payloadData"

text \<open>
  The local variables of \<open>handleWebSocketFrames\<close> when it reaches its \<open>switch\<close>
  (\<open>mask'\<close> is the source's \<open>mask\<close>). \<open>readLength\<close> is the length code and its
  extended forms, with the offset after them; \<open>decodeFrame\<close> is the function up to the
  \<open>switch\<close>.
\<close>

record frame =
  fin :: byte
  opcode :: byte
  mask' :: byte
  payloadLength :: nat
  offset :: nat
  maskingKey :: "buffer option"
  payloadData :: buffer

definition readLength :: "buffer \<Rightarrow> error + (nat \<times> nat)" where
  "readLength data =
     (let payloadLength = unat (byte_at data 1 AND 0x7f); offset = 2
      in if payloadLength = 126
           then (case readUInt16BE data offset of
                   Inl e \<Rightarrow> Inl e | Inr n \<Rightarrow> Inr (n, offset + 2))
         else if payloadLength = 127
           then (case readBigUInt64BE data offset of
                   Inl e \<Rightarrow> Inl e | Inr n \<Rightarrow> Inr (to_double n, offset + 8))
         else Inr (payloadLength, offset))"

definition decodeFrame :: "buffer \<Rightarrow> error + frame" where
  "decodeFrame data =
     (case readLength data of
        Inl e \<Rightarrow> Inl e
      | Inr (len, offset0) \<Rightarrow>
          (let payloadLength = len;
               fin = byte_at data 0 AND 0x80;
               opcode = byte_at data 0 AND 0x0f;
               mask = byte_at data 1 AND 0x80;
               maskingKey = (if mask \<noteq> 0 then Some (slice data offset0 (offset0 + 4))
                             else None);
               offset = offset0 + (if mask \<noteq> 0 then 4 else 0);
               payloadData = slice data offset (js_add offset payloadLength);
               payloadData = (case maskingKey of
                                None \<Rightarrow> payloadData
                              | Some key \<Rightarrow> unmask payloadData key)
           in Inr \<lparr>fin = fin, opcode = opcode, mask' = mask, payloadLength = payloadLength,
                   offset = offset, maskingKey = maskingKey, payloadData = payloadData\<rparr>))"

text \<open>
  \<open>src.copy(target, targetStart)\<close>: as many bytes of \<open>src\<close> as fit are written over
  \<open>target\<close> from \<open>targetStart\<close> on.
\<close>

definition copy :: "buffer \<Rightarrow> buffer \<Rightarrow> nat \<Rightarrow> buffer" where
  "copy src target targetStart =
     (let n = min (length src) (length target - targetStart)
      in take targetStart target @ take n src @ drop (targetStart + n) target)"

text \<open>The frame that \<open>sendWebSocketFrame\<close> builds; a byte stored in a buffer wraps at 256.\<close>

definition encodeFrame :: "jsstring \<Rightarrow> buffer" where
  "encodeFrame message =
     (let payload = Buffer_from message;
          frame0 = replicate (2 + length payload) 0;
          frame1 = frame0[0 := 0x81];
          frame2 = frame1[1 := of_nat (length payload)]
      in copy payload frame2 2)"

definition sendWebSocketFrame :: "nat \<Rightarrow> jsstring \<Rightarrow> server \<Rightarrow> server" where
  "sendWebSocketFrame socket message srv = socket_write socket (encodeFrame message) srv"

definition handleWebSocketFrames :: "buffer \<Rightarrow> nat \<Rightarrow> server \<Rightarrow> error + server" where
  "handleWebSocketFrames data socket srv =
     (case decodeFrame data of
        Inl e \<Rightarrow> Inl e
      | Inr f \<Rightarrow>
          Inr (if opcode f = 0x1 then sendWebSocketFrame socket (toString (payloadData f)) srv
               else if opcode f = 0x8 then socket_end socket srv
               else srv))"

section \<open>The dispatcher\<close>

definition isWebSocketHandshake :: "buffer \<Rightarrow> bool" where
  "isWebSocketHandshake data = includes' (toString data) (js ''Sec-WebSocket-Key'')"

definition isWebSocketFrame :: "buffer \<Rightarrow> bool" where
  "isWebSocketFrame data =
     (byte_at data 0 AND 0x80 = 0x80 \<and> byte_at data 0 AND 0x0f \<noteq> 0x00)"

datatype protocol = WebSocketHandshake | WebSocketFrame | HttpRequest

definition classify :: "buffer \<Rightarrow> protocol" where
  "classify data =
     (if isWebSocketHandshake data then WebSocketHandshake
      else if isWebSocketFrame data then WebSocketFrame
      else HttpRequest)"

definition onData :: "buffer \<Rightarrow> nat \<Rightarrow> server \<Rightarrow> error + server" where
  "onData data socket srv =
     (case classify data of
        WebSocketHandshake \<Rightarrow> Inr (handleWebSocketHandshake data socket srv)
      | WebSocketFrame \<Rightarrow> handleWebSocketFrames data socket srv
      | HttpRequest \<Rightarrow> handleHttpRequest data socket srv)"

section \<open>Server-sent events\<close>

record SseMessage =
  event :: "jsstring option"
  data' :: "jsstring option"
  id' :: "jsstring option"
  retry :: "jsstring option"

text \<open>One \<open>if (message.field) { formattedMessage += ... }\<close> step.\<close>

definition append_field :: "string \<Rightarrow> jsstring option \<Rightarrow> jsstring \<Rightarrow> jsstring" where
  "append_field name field formattedMessage =
     (case field of
        None \<Rightarrow> formattedMessage
      | Some v \<Rightarrow>
          if v \<noteq> [] then formattedMessage @ js name @ js '': '' @ v @ js [LF]
          else formattedMessage)"

definition formatSseMessage :: "SseMessage \<Rightarrow> jsstring" where
  "formatSseMessage message =
     (let m0 = [];
          m1 = append_field ''event'' (event message) m0;
          m2 = append_field ''data'' (data' message) m1;
          m3 = append_field ''id'' (id' message) m2;
          m4 = append_field ''retry'' (retry message) m3
      in m4 @ js [LF])"

text \<open>
  The description the formatter is compared with: the lines of the fields that are set
  to a text that is not empty, in the order event, data, id, retry, then one line feed.
\<close>

definition sse_fields :: "SseMessage \<Rightarrow> (string \<times> jsstring) list" where
  "sse_fields message =
     [(''event'', case event message of None \<Rightarrow> [] | Some v \<Rightarrow> v),
      (''data'', case data' message of None \<Rightarrow> [] | Some v \<Rightarrow> v),
      (''id'', case id' message of None \<Rightarrow> [] | Some v \<Rightarrow> v),
      (''retry'', case retry message of None \<Rightarrow> [] | Some v \<Rightarrow> v)]"

definition sse_text :: "SseMessage \<Rightarrow> jsstring" where
  "sse_text message =
     concat (map (\<lambda>(name, v). js name @ js '': '' @ v @ js [LF])
               (filter (\<lambda>(name, v). v \<noteq> []) (sse_fields message)))
     @ js [LF]"

section \<open>Auxiliary facts\<close>

lemmas str_eval = js_def ascii_def CRLF_def CR_def LF_def toString_def utf16_of_cp_def split_def

subsection \<open>Masking, encoding and bits of a byte\<close>

lemma unmask_from_twice: "unmask_from idx k (unmask_from idx k p) = p"
  by (induction p arbitrary: idx) (simp_all add: xor.assoc)

lemma length_unmask_from: "length (unmask_from idx k p) = length p"
  by (induction p arbitrary: idx) simp_all

lemma unmask_from_nth:
  "i < length p \<Longrightarrow> unmask_from idx k p ! i = p ! i XOR byte_at k ((idx + i) mod 4)"
proof (induction p arbitrary: idx i)
  case Nil
  then show ?case by simp
next
  case (Cons b bs)
  show ?case
  proof (cases i)
    case 0
    then show ?thesis by simp
  next
    case (Suc j)
    with Cons.prems have "j < length bs" by simp
    from Cons.IH [OF this, of "idx + 1"] Suc show ?thesis by simp
  qed
qed

lemma unmask_nth:
  "i < length payload \<Longrightarrow> length key = 4 \<Longrightarrow>
     unmask payload key ! i = payload ! i XOR key ! (i mod 4)"
  by (simp add: unmask_def unmask_from_nth byte_at_def)

lemma encodeFrame_eq:
  "encodeFrame message =
     0x81 # of_nat (length (Buffer_from message)) # Buffer_from message"
  by (simp add: encodeFrame_def copy_def Let_def numeral_2_eq_2)



lemma and_exp_eq_exp_iff:
  fixes a :: "'a::len word"
  assumes n: "n < LENGTH('a)"
  shows "(a AND 2 ^ n = 2 ^ n) = bit a n"
proof
  assume "a AND 2 ^ n = 2 ^ n"
  with n have "a AND 2 ^ n \<noteq> 0" by simp
  then show "bit a n" by (simp add: and_exp_eq_0_iff_not_bit)
next
  assume b: "bit a n"
  show "a AND 2 ^ n = 2 ^ n"
    by (rule bit_eqI) (use b in \<open>auto simp: bit_simps\<close>)
qed

lemma byte_top_bit: "(b AND 0x80 = 0x80) = bit b 7" for b :: byte
  using and_exp_eq_exp_iff [of 7 b] by simp

lemma byte_low_nibble: "(b AND 0x0f = 0) = (unat b mod 16 = 0)" for b :: byte
proof -
  have e: "(0x0f :: byte) = mask 4" by (simp add: mask_eq_exp_minus_1)
  have "b AND 0x0f = take_bit 4 b"
    unfolding e by (simp add: take_bit_eq_mask)
  moreover have "unat (take_bit 4 b) = unat b mod 16"
    by (simp add: unsigned_take_bit_eq take_bit_eq_mod unat_mod)
  ultimately show ?thesis
    by (metis unat_eq_0)
qed

lemma of_nat_top_bit: "128 \<le> n \<Longrightarrow> n \<le> 255 \<Longrightarrow> bit (of_nat n :: byte) 7"
proof -
  assume a: "128 \<le> n" "n \<le> 255"
  then have "n div 2 ^ 7 = 1" by simp
  then have "bit n 7" by (simp add: bit_iff_odd)
  then show ?thesis by (simp add: bit_simps)
qed

lemma unat_of_nat_byte: "unat (of_nat n :: byte) = n mod 256"
  by (simp add: unat_of_nat)
lemma replicate_numeral: "replicate (numeral k) x = x # replicate (pred_numeral k) x"
  by (simp add: numeral_eq_Suc)

lemma bit_length_numeral:
  "bit_length 0 = 0"
  "bit_length (Suc 0) = 1"
  "bit_length (numeral Num.One) = 1"
  "bit_length (numeral (Num.Bit0 k)) = Suc (bit_length (numeral k))"
  "bit_length (numeral (Num.Bit1 k)) = Suc (bit_length (numeral k))"
  by (subst bit_length.simps, simp add: bit_length.simps)+

lemmas utf8_eval = utf8_bytes_def is_pair_def is_surrogate_def

lemmas frame_eval = decodeFrame_def readLength_def byte_at_def slice_def js_add_def
  to_double_def bit_length_numeral unmask_def readUInt16BE_def readBigUInt64BE_def

subsection \<open>Formatting, searching and dispatching\<close>

lemma formatSseMessage_eq: "formatSseMessage message = sse_text message"
  by (simp add: formatSseMessage_def sse_text_def sse_fields_def append_field_def
      split: option.splits)

lemma startsWith_iff_prefix: "startsWith s n = prefix n s"
  by (induction s n rule: startsWith.induct) auto

lemma includes_iff_sublist: "includes' s n = sublist n s"
proof (induction s)
  case Nil
  then show ?case by simp
next
  case (Cons x xs)
  then show ?case
    by (simp add: startsWith_iff_prefix sublist_Cons_right)
qed

lemma isWebSocketFrame_iff:
  "isWebSocketFrame data = (data \<noteq> [] \<and> bit (data ! 0) 7 \<and> unat (data ! 0) mod 16 \<noteq> 0)"
proof (cases data)
  case Nil
  then show ?thesis by (simp add: isWebSocketFrame_def byte_at_def)
next
  case (Cons b bs)
  then show ?thesis
    by (simp add: isWebSocketFrame_def byte_at_def byte_top_bit byte_low_nibble)
qed

lemma onData_classify:
  "onData data socket srv =
     (if classify data = WebSocketHandshake then Inr (handleWebSocketHandshake data socket srv)
      else if classify data = WebSocketFrame then handleWebSocketFrames data socket srv
      else handleHttpRequest data socket srv)"
  by (cases "classify data") (simp_all add: onData_def)

subsection \<open>The HTTP responder\<close>

lemma split_aux_not_Nil: "split_aux sep acc s \<noteq> []"
  by (induction sep acc s rule: split_aux.induct) simp_all

lemma requestTarget_total: "\<exists>method path. requestTarget data = Inr (method, path)"
proof (cases "split (toString data) (js CRLF)")
  case Nil
  then show ?thesis by (simp add: split_def split_aux_not_Nil)
next
  case (Cons requestLine headerLines)
  then show ?thesis by (simp add: requestTarget_def Let_def)
qed

lemmas http_eval = buildResponse_def buildStatusLine_def buildHeaders_def httpStatusMessages_def
  decimal.simps

lemma response_200:
  "buildResponse 200 [(js ''Content-Type'', js ''text/plain''),
                      (js ''Access-Control-Allow-Origin'', js ''*'')] (js ''Hello, world!'')
   = js (''HTTP/1.1 200 OK'' @ CRLF @ ''Content-Type: text/plain'' @ CRLF
         @ ''Access-Control-Allow-Origin: *'' @ CRLF @ CRLF @ ''Hello, world!'')"
  by (simp add: http_eval str_eval)

lemma response_426:
  "buildResponse 426 [(js ''Content-Type'', js ''text/plain''),
                      (js ''Access-Control-Allow-Origin'', js ''*''),
                      (js ''Upgrade'', js ''websocket''), (js ''Connection'', js ''Upgrade'')]
     (js ''Upgrade Required'')
   = js (''HTTP/1.1 426 Unknown Status'' @ CRLF @ ''Content-Type: text/plain'' @ CRLF
         @ ''Access-Control-Allow-Origin: *'' @ CRLF @ ''Upgrade: websocket'' @ CRLF
         @ ''Connection: Upgrade'' @ CRLF @ CRLF @ ''Upgrade Required'')"
  by (simp add: http_eval str_eval)

lemma response_404:
  "buildResponse 404 [(js ''Content-Type'', js ''text/plain''),
                      (js ''Access-Control-Allow-Origin'', js ''*'')] (js ''Not Found'')
   = js (''HTTP/1.1 404 Not Found'' @ CRLF @ ''Content-Type: text/plain'' @ CRLF
         @ ''Access-Control-Allow-Origin: *'' @ CRLF @ CRLF @ ''Not Found'')"
  by (simp add: http_eval str_eval)

lemma upgrade_headers:
  "set_header (set_header [(js ''Content-Type'', js ''text/plain''),
                           (js ''Access-Control-Allow-Origin'', js ''*'')]
                 (js ''Upgrade'') (js ''websocket'')) (js ''Connection'') (js ''Upgrade'')
   = [(js ''Content-Type'', js ''text/plain''), (js ''Access-Control-Allow-Origin'', js ''*''),
      (js ''Upgrade'', js ''websocket''), (js ''Connection'', js ''Upgrade'')]"
  by (simp add: js_def)

lemma paths_distinct:
  "js ''/websocket'' \<noteq> js ''/''"
  "js ''/serverside-events'' \<noteq> js ''/''"
  "js ''/serverside-events'' \<noteq> js ''/websocket''"
  by (simp_all add: js_def)

lemma common_headers:
  "map_of ((js ''Content-Type'', js ''text/plain'') # hs) (js ''Content-Type'')
     = Some (js ''text/plain'')"
  "map_of ((js ''Content-Type'', js ''text/plain'') # (js ''Access-Control-Allow-Origin'', js ''*'') # hs)
     (js ''Access-Control-Allow-Origin'') = Some (js ''*'')"
  by (simp_all add: js_def)

lemma routeRequest_cases:
  "routeRequest method path =
     (if method = Some (js ''GET'') \<and> path = Some (js ''/'')
        then Respond 200 [(js ''Content-Type'', js ''text/plain''),
                          (js ''Access-Control-Allow-Origin'', js ''*'')] (js ''Hello, world!'')
      else if method = Some (js ''GET'') \<and> path = Some (js ''/websocket'')
        then Respond 426 [(js ''Content-Type'', js ''text/plain''),
                          (js ''Access-Control-Allow-Origin'', js ''*''),
                          (js ''Upgrade'', js ''websocket''), (js ''Connection'', js ''Upgrade'')]
               (js ''Upgrade Required'')
      else if method = Some (js ''GET'') \<and> path = Some (js ''/serverside-events'')
        then Subscribe
      else Respond 404 [(js ''Content-Type'', js ''text/plain''),
                        (js ''Access-Control-Allow-Origin'', js ''*'')] (js ''Not Found''))"
  unfolding routeRequest_def Let_def upgrade_headers by (rule refl)

lemma respond_headers:
  "routeRequest method path = Respond status hs body \<Longrightarrow>
   \<exists>rest. hs = (js ''Content-Type'', js ''text/plain'')
                # (js ''Access-Control-Allow-Origin'', js ''*'') # rest"
  by (auto simp: routeRequest_cases split: if_splits)

subsection \<open>Doubles and payload lengths\<close>

lemma bit_length_le: "n < 2 ^ k \<Longrightarrow> bit_length n \<le> k"
proof (induction n arbitrary: k rule: bit_length.induct)
  case (1 n)
  show ?case
  proof (cases "n = 0")
    case True
    then show ?thesis by (simp add: bit_length.simps)
  next
    case False
    with "1.prems" obtain j where k: "k = Suc j"
      by (cases k) auto
    with "1.prems" have "n div 2 < 2 ^ j" by auto
    from "1.IH" [OF False this] False k show ?thesis
      by (simp add: bit_length.simps [of n])
  qed
qed

lemma bit_length_lower: "0 < n \<Longrightarrow> 2 ^ (bit_length n - 1) \<le> n"
proof (induction n rule: bit_length.induct)
  case (1 n)
  show ?case
  proof (cases "n div 2 = 0")
    case True
    with "1.prems" show ?thesis
      by (simp add: bit_length.simps [of n] bit_length.simps [of 0])
  next
    case False
    with "1.prems" "1.IH" have "2 ^ (bit_length (n div 2) - 1) \<le> n div 2" by simp
    moreover from False have "0 < bit_length (n div 2)"
      by (simp add: bit_length.simps [of "n div 2"])
    ultimately have "2 ^ bit_length (n div 2) \<le> 2 * (n div 2)"
      by (cases "bit_length (n div 2)") simp_all
    also have "\<dots> \<le> n" by simp
    finally show ?thesis using "1.prems"
      by (simp add: bit_length.simps [of n])
  qed
qed

lemma bit_length_gt: "2 ^ k \<le> n \<Longrightarrow> k < bit_length n"
proof (induction n arbitrary: k rule: bit_length.induct)
  case (1 n)
  have "0 < (2::nat) ^ k" by simp
  with "1.prems" have n: "n \<noteq> 0" by linarith
  show ?case
  proof (cases k)
    case 0
    with n show ?thesis by (simp add: bit_length.simps [of n])
  next
    case (Suc j)
    with "1.prems" have "2 ^ j \<le> n div 2" by auto
    from "1.IH" [OF n this] n Suc show ?thesis
      by (simp add: bit_length.simps [of n])
  qed
qed

lemma to_double_exact: "n < 2 ^ 53 \<Longrightarrow> to_double n = n"
proof -
  assume "n < 2 ^ 53"
  then have "bit_length n - 53 = 0"
    using bit_length_le [of n 53] by simp
  then show ?thesis
    by (simp add: to_double_def)
qed

lemma to_double_large: "2 ^ 53 \<le> n \<Longrightarrow> 2 ^ 53 \<le> to_double n"
proof -
  assume n: "(2::nat) ^ 53 \<le> n"
  define e where "e = bit_length n - 53"
  from n have b: "53 < bit_length n" by (rule bit_length_gt)
  then have be: "bit_length n - 1 = 52 + e" by (simp add: e_def)
  from n have "0 < n" by (simp add: order_less_le_trans [of 0 "2 ^ 53"])
  then have "2 ^ (52 + e) \<le> n"
    using bit_length_lower [of n] be by simp
  then have "2 ^ 52 * 2 ^ e \<le> n" by (simp add: power_add)
  then have q: "2 ^ 52 \<le> n div 2 ^ e"
    by (simp add: less_eq_div_iff_mult_less_eq)
  from b have "1 \<le> e" by (simp add: e_def)
  then have "(2::nat) ^ 1 \<le> 2 ^ e" by (rule power_increasing) simp
  with q have "(2::nat) ^ 52 * 2 ^ 1 \<le> n div 2 ^ e * 2 ^ e"
    by (rule mult_le_mono)
  then have l: "(2::nat) ^ 53 \<le> n div 2 ^ e * 2 ^ e" by simp
  have "n div 2 ^ e * 2 ^ e \<le> to_double n"
    by (simp add: to_double_def e_def Let_def)
  with l show ?thesis by (rule order_trans)
qed

lemma length_slice: "length (slice xs s e) = min e (length xs) - s"
  by (simp add: slice_def min.commute)

lemma length_unmask: "length (unmask p k) = length p"
  by (simp add: unmask_def length_unmask_from)

lemma length_payload_slice:
  assumes "length xs < 2 ^ 53"
  shows "length (slice xs off (js_add off len)) = min len (length xs - off)"
proof (cases "off + len < 2 ^ 53")
  case True
  then have "js_add off len = off + len"
    using to_double_exact [of "off + len"] by (simp add: js_add_def)
  then show ?thesis
    by (simp add: length_slice)
next
  case False
  then have "2 ^ 53 \<le> js_add off len"
    using to_double_large [of "off + len"] by (simp add: js_add_def)
  with assms False show ?thesis
    by (simp add: length_slice)
qed

lemma decodeFrame_payload:
  "decodeFrame xs = Inr f \<Longrightarrow>
   length (payloadData f) = length (slice xs (offset f) (js_add (offset f) (payloadLength f)))"
  by (auto simp: decodeFrame_def Let_def length_unmask split: sum.splits prod.splits)

subsection \<open>Evaluating SHA-1\<close>

text \<open>The model of the hash gives the digest of FIPS 180-4 for \<open>abc\<close>.\<close>

lemmas sha1_eval = sha1_def sha1_pad_def be_bytes64_def be_bytes32_def sha1_schedule.simps
  sha1_rounds.simps rotl32_def add32_def not32_def sha1_f_def sha1_K_def replicate_numeral

lemma sha1_abc:
  "sha1 (ascii ''abc'') =
     [0xA9, 0x99, 0x3E, 0x36, 0x47, 0x06, 0x81, 0x6A, 0xBA, 0x3E,
      0x25, 0x71, 0x78, 0x50, 0xC2, 0x6C, 0x9C, 0xD0, 0xD8, 0x9D]"
  by (simp add: sha1_eval ascii_def)

lemma sha1_sample_key:
  "sha1 (binary_bytes (js ''dGhlIHNhbXBsZSBub25jZQ=='' @ js ''258EAFA5-E914-47DA-95CA-C5AB0DC85B11'')) =
     [0xb3, 0x7a, 0x4f, 0x2c, 0xc0, 0x62, 0x4f, 0x16, 0x90, 0xf6,
      0x46, 0x06, 0xcf, 0x38, 0x59, 0x45, 0xb2, 0xbe, 0xc4, 0xea]"
  by (simp add: sha1_eval binary_bytes_def js_def)

section \<open>The accept value of the sample key\<close>

text \<open>
  C1: the accept value computed for the key \<open>dGhlIHNhbXBsZSBub25jZQ==\<close> (the key
  followed by the GUID, hashed with SHA-1, the digest written in base64) is
  \<open>s3pPLMBiTxaQ9kYGzzhZRbK+xOo=\<close>.
\<close>

theorem accept_value_sample:
  "generateAcceptValue (js ''dGhlIHNhbXBsZSBub25jZQ=='') = js ''s3pPLMBiTxaQ9kYGzzhZRbK+xOo=''"
  by (simp add: generateAcceptValue_def sha1_sample_key)
    (simp add: js_def b64_def base64_alphabet_def)

section \<open>Encoding, then decoding\<close>

text \<open>
  C2: the frame encoded for the text \<open>hello\<close> decodes to a frame with opcode 1 whose
  payload is the bytes of \<open>hello\<close>, and these bytes decode to the text \<open>hello\<close>.
\<close>

theorem frame_round_trip:
  "decodeFrame (encodeFrame (js ''hello'')) =
     Inr \<lparr>fin = 0x80, opcode = 1, mask' = 0, payloadLength = 5, offset = 2,
          maskingKey = None, payloadData = ascii ''hello''\<rparr> \<and>
   toString (ascii ''hello'') = js ''hello''"
  by (simp add: encodeFrame_eq utf8_eval frame_eval str_eval)

section \<open>Masking\<close>

text \<open>
  C3: for every payload and every masking key of 4 bytes, masking twice with the same key
  gives the payload back. (\<open>unmask_nth\<close> above: the operation is the exclusive or of
  byte \<open>i\<close> with \<open>key[i mod 4]\<close>.)
\<close>

theorem masking_involution:
  "length key = 4 \<Longrightarrow> unmask (unmask payload key) key = payload"
  by (simp add: unmask_def unmask_from_twice)

theorem masking_involution_witness:
  "length [1, 2, 3, 4 :: byte] = 4 \<and>
   unmask (unmask [0x68, 0x65, 0x6c, 0x6c, 0x6f] [1, 2, 3, 4]) [1, 2, 3, 4]
     = [0x68, 0x65, 0x6c, 0x6c, 0x6f]"
  using masking_involution [of "[1, 2, 3, 4]" "[0x68, 0x65, 0x6c, 0x6c, 0x6f]"] by simp

section \<open>The HTTP surface\<close>

text \<open>
  C4: for every request buffer, with \<open>method\<close> and \<open>path\<close> the first two pieces of its
  first line: \<open>GET /\<close> is answered with status 200 and body \<open>Hello, world!\<close>;
  \<open>GET /websocket\<close> with status 426, body \<open>Upgrade Required\<close> and the headers
  \<open>Upgrade: websocket\<close> and \<open>Connection: Upgrade\<close>; everything else but
  \<open>GET /serverside-events\<close> with status 404 and body \<open>Not Found\<close>. Each of these
  responses has the headers \<open>Content-Type: text/plain\<close> and
  \<open>Access-Control-Allow-Origin: *\<close>, is written to the socket, and the socket is ended
  after the write exactly when the status is not 426.
\<close>

theorem http_surface:
  assumes "requestTarget data = Inr (method, path)"
  shows
    "(method = Some (js ''GET'') \<and> path = Some (js ''/'') \<longrightarrow>
        routeRequest method path
          = Respond 200 [(js ''Content-Type'', js ''text/plain''),
                         (js ''Access-Control-Allow-Origin'', js ''*'')] (js ''Hello, world!'')) \<and>
     (method = Some (js ''GET'') \<and> path = Some (js ''/websocket'') \<longrightarrow>
        routeRequest method path
          = Respond 426 [(js ''Content-Type'', js ''text/plain''),
                         (js ''Access-Control-Allow-Origin'', js ''*''),
                         (js ''Upgrade'', js ''websocket''), (js ''Connection'', js ''Upgrade'')]
              (js ''Upgrade Required'')) \<and>
     (\<not> (method = Some (js ''GET'') \<and>
         (path = Some (js ''/'') \<or> path = Some (js ''/websocket'')
          \<or> path = Some (js ''/serverside-events''))) \<longrightarrow>
        routeRequest method path
          = Respond 404 [(js ''Content-Type'', js ''text/plain''),
                         (js ''Access-Control-Allow-Origin'', js ''*'')] (js ''Not Found'')) \<and>
     (routeRequest method path = Respond status hs body \<longrightarrow>
        map_of hs (js ''Content-Type'') = Some (js ''text/plain'') \<and>
        map_of hs (js ''Access-Control-Allow-Origin'') = Some (js ''*'') \<and>
        handleHttpRequest data socket srv
          = Inr (if status \<noteq> 426
                 then socket_end socket
                        (socket_write socket (Buffer_from (buildResponse status hs body)) srv)
                 else socket_write socket (Buffer_from (buildResponse status hs body)) srv))"
proof (intro conjI impI)
  assume r: "routeRequest method path = Respond status hs body"
  then obtain rest where hs: "hs = (js ''Content-Type'', js ''text/plain'')
      # (js ''Access-Control-Allow-Origin'', js ''*'') # rest"
    using respond_headers by blast
  show "map_of hs (js ''Content-Type'') = Some (js ''text/plain'')"
    by (simp only: hs common_headers)
  show "map_of hs (js ''Access-Control-Allow-Origin'') = Some (js ''*'')"
    by (simp only: hs common_headers)
  from r assms show "handleHttpRequest data socket srv
      = Inr (if status \<noteq> 426
             then socket_end socket
                    (socket_write socket (Buffer_from (buildResponse status hs body)) srv)
             else socket_write socket (Buffer_from (buildResponse status hs body)) srv)"
    by (simp add: handleHttpRequest_def Let_def)
qed (auto simp: routeRequest_cases paths_distinct)

theorem http_surface_witness:
  "requestTarget (ascii (''GET / HTTP/1.1'' @ CRLF @ CRLF)) = Inr (Some (js ''GET''), Some (js ''/'')) \<and>
   handleHttpRequest (ascii (''GET / HTTP/1.1'' @ CRLF @ CRLF)) 0 idle
     = Inr (socket_end 0 (socket_write 0
         (Buffer_from (js (''HTTP/1.1 200 OK'' @ CRLF @ ''Content-Type: text/plain'' @ CRLF
            @ ''Access-Control-Allow-Origin: *'' @ CRLF @ CRLF @ ''Hello, world!''))) idle)) \<and>
   requestTarget (ascii (''GET /websocket HTTP/1.1'' @ CRLF @ CRLF))
     = Inr (Some (js ''GET''), Some (js ''/websocket'')) \<and>
   handleHttpRequest (ascii (''GET /websocket HTTP/1.1'' @ CRLF @ CRLF)) 0 idle
     = Inr (socket_write 0
         (Buffer_from (js (''HTTP/1.1 426 Unknown Status'' @ CRLF @ ''Content-Type: text/plain'' @ CRLF
            @ ''Access-Control-Allow-Origin: *'' @ CRLF @ ''Upgrade: websocket'' @ CRLF
            @ ''Connection: Upgrade'' @ CRLF @ CRLF @ ''Upgrade Required''))) idle) \<and>
   requestTarget (ascii (''POST /nope HTTP/1.1'' @ CRLF @ CRLF))
     = Inr (Some (js ''POST''), Some (js ''/nope'')) \<and>
   handleHttpRequest (ascii (''POST /nope HTTP/1.1'' @ CRLF @ CRLF)) 0 idle
     = Inr (socket_end 0 (socket_write 0
         (Buffer_from (js (''HTTP/1.1 404 Not Found'' @ CRLF @ ''Content-Type: text/plain'' @ CRLF
            @ ''Access-Control-Allow-Origin: *'' @ CRLF @ CRLF @ ''Not Found''))) idle))"
proof -
  have t1: "requestTarget (ascii (''GET / HTTP/1.1'' @ CRLF @ CRLF))
      = Inr (Some (js ''GET''), Some (js ''/''))"
    by (simp add: requestTarget_def str_eval)
  have t2: "requestTarget (ascii (''GET /websocket HTTP/1.1'' @ CRLF @ CRLF))
      = Inr (Some (js ''GET''), Some (js ''/websocket''))"
    by (simp add: requestTarget_def str_eval)
  have t3: "requestTarget (ascii (''POST /nope HTTP/1.1'' @ CRLF @ CRLF))
      = Inr (Some (js ''POST''), Some (js ''/nope''))"
    by (simp add: requestTarget_def str_eval)
  have n: "js ''POST'' \<noteq> js ''GET''"
    by (simp add: js_def)
  from http_surface [OF t1, where status = 200 and body = "js ''Hello, world!''" and socket = 0
      and srv = idle
      and hs = "[(js ''Content-Type'', js ''text/plain''), (js ''Access-Control-Allow-Origin'', js ''*'')]"]
  have r1: "handleHttpRequest (ascii (''GET / HTTP/1.1'' @ CRLF @ CRLF)) 0 idle
     = Inr (socket_end 0 (socket_write 0
         (Buffer_from (js (''HTTP/1.1 200 OK'' @ CRLF @ ''Content-Type: text/plain'' @ CRLF
            @ ''Access-Control-Allow-Origin: *'' @ CRLF @ CRLF @ ''Hello, world!''))) idle))"
    by (simp add: response_200)
  from http_surface [OF t2, where status = 426 and body = "js ''Upgrade Required''" and socket = 0
      and srv = idle
      and hs = "[(js ''Content-Type'', js ''text/plain''), (js ''Access-Control-Allow-Origin'', js ''*''),
                 (js ''Upgrade'', js ''websocket''), (js ''Connection'', js ''Upgrade'')]"]
  have r2: "handleHttpRequest (ascii (''GET /websocket HTTP/1.1'' @ CRLF @ CRLF)) 0 idle
     = Inr (socket_write 0
         (Buffer_from (js (''HTTP/1.1 426 Unknown Status'' @ CRLF @ ''Content-Type: text/plain'' @ CRLF
            @ ''Access-Control-Allow-Origin: *'' @ CRLF @ ''Upgrade: websocket'' @ CRLF
            @ ''Connection: Upgrade'' @ CRLF @ CRLF @ ''Upgrade Required''))) idle)"
    by (simp add: response_426)
  from http_surface [OF t3, where status = 404 and body = "js ''Not Found''" and socket = 0
      and srv = idle
      and hs = "[(js ''Content-Type'', js ''text/plain''), (js ''Access-Control-Allow-Origin'', js ''*'')]"]
  have r3: "handleHttpRequest (ascii (''POST /nope HTTP/1.1'' @ CRLF @ CRLF)) 0 idle
     = Inr (socket_end 0 (socket_write 0
         (Buffer_from (js (''HTTP/1.1 404 Not Found'' @ CRLF @ ''Content-Type: text/plain'' @ CRLF
            @ ''Access-Control-Allow-Origin: *'' @ CRLF @ CRLF @ ''Not Found''))) idle))"
    by (simp add: response_404 n)
  from t1 t2 t3 r1 r2 r3 show ?thesis
    by (intro conjI)
qed

section \<open>Formatting server-sent events\<close>

text \<open>
  C5, as the code has it: the formatter emits, in the order event, data, id, retry, one
  line \<open>name: value\<close> for every field that is set to a text that is not empty, leaves
  out a field that is absent or empty, and ends with one line feed; so
  \<open>{event: 'ping', data: 'x'}\<close> gives \<open>event: ping\ndata: x\n\n\<close> and \<open>{}\<close> gives
  \<open>\n\<close>.
\<close>

theorem sse_format:
  "formatSseMessage message = sse_text message \<and>
   formatSseMessage \<lparr>event = Some (js ''ping''), data' = Some (js ''x''), id' = None, retry = None\<rparr>
     = js (''event: ping'' @ [LF] @ ''data: x'' @ [LF, LF]) \<and>
   formatSseMessage \<lparr>event = None, data' = None, id' = None, retry = None\<rparr> = js [LF]"
proof (intro conjI)
  show "formatSseMessage message = sse_text message"
    by (rule formatSseMessage_eq)
qed (simp_all add: formatSseMessage_def append_field_def js_def)

text \<open>
  A field that is present with the empty text has no line: \<open>{event: ''}\<close> formats to
  \<open>\n\<close>, not to \<open>event: \n\n\<close>.
\<close>

theorem sse_format_counterexample:
  "formatSseMessage \<lparr>event = Some (js []), data' = None, id' = None, retry = None\<rparr> = js [LF] \<and>
   formatSseMessage \<lparr>event = Some (js []), data' = None, id' = None, retry = None\<rparr>
     \<noteq> js (''event: '' @ [LF, LF])"
  by (simp add: formatSseMessage_def append_field_def js_def)

text \<open>
  C9: a field whose value is the empty text is treated as absent: setting any field to
  \<open>''\<close> gives the same output as leaving it out, and a message whose four fields are
  all \<open>''\<close> formats to \<open>\n\<close>, as \<open>{}\<close> does.
\<close>

theorem sse_empty_is_absent:
  "formatSseMessage (message\<lparr>event := Some (js [])\<rparr>) = formatSseMessage (message\<lparr>event := None\<rparr>) \<and>
   formatSseMessage (message\<lparr>data' := Some (js [])\<rparr>) = formatSseMessage (message\<lparr>data' := None\<rparr>) \<and>
   formatSseMessage (message\<lparr>id' := Some (js [])\<rparr>) = formatSseMessage (message\<lparr>id' := None\<rparr>) \<and>
   formatSseMessage (message\<lparr>retry := Some (js [])\<rparr>) = formatSseMessage (message\<lparr>retry := None\<rparr>) \<and>
   formatSseMessage \<lparr>event = Some (js []), data' = Some (js []), id' = Some (js []),
                     retry = Some (js [])\<rparr>
     = formatSseMessage \<lparr>event = None, data' = None, id' = None, retry = None\<rparr> \<and>
   formatSseMessage \<lparr>event = Some (js []), data' = Some (js []), id' = Some (js []),
                     retry = Some (js [])\<rparr> = js [LF]"
  by (simp add: formatSseMessage_def append_field_def js_def)

section \<open>Classifying a buffer\<close>

text \<open>
  C6: a buffer whose text contains \<open>Sec-WebSocket-Key\<close> is classified as a handshake,
  whatever else it holds; otherwise it is a frame exactly when the top bit of byte 0 is set
  and the low 4 bits of byte 0 are not all zero; otherwise it is an HTTP request.
\<close>

theorem classifier:
  "(sublist (js ''Sec-WebSocket-Key'') (toString data) \<longrightarrow> classify data = WebSocketHandshake) \<and>
   (\<not> sublist (js ''Sec-WebSocket-Key'') (toString data) \<longrightarrow>
      (classify data = WebSocketFrame)
        = (data \<noteq> [] \<and> bit (data ! 0) 7 \<and> unat (data ! 0) mod 16 \<noteq> 0)) \<and>
   (\<not> sublist (js ''Sec-WebSocket-Key'') (toString data) \<and>
    \<not> (data \<noteq> [] \<and> bit (data ! 0) 7 \<and> unat (data ! 0) mod 16 \<noteq> 0)
      \<longrightarrow> classify data = HttpRequest)"
  by (simp add: classify_def isWebSocketHandshake_def includes_iff_sublist isWebSocketFrame_iff)

theorem classifier_witness:
  "sublist (js ''Sec-WebSocket-Key'') (toString (0x81 # ascii ''Sec-WebSocket-Key: x'')) \<and>
   classify (0x81 # ascii ''Sec-WebSocket-Key: x'') = WebSocketHandshake \<and>
   \<not> sublist (js ''Sec-WebSocket-Key'') (toString [0x81, 0x05]) \<and>
   classify [0x81, 0x05] = WebSocketFrame \<and>
   \<not> sublist (js ''Sec-WebSocket-Key'') (toString (ascii ''GET / HTTP/1.1'')) \<and>
   classify (ascii ''GET / HTTP/1.1'') = HttpRequest"
  using classifier [of "0x81 # ascii ''Sec-WebSocket-Key: x''"]
    classifier [of "[0x81, 0x05]"] classifier [of "ascii ''GET / HTTP/1.1''"]
  by (simp add: str_eval sublist_Cons_right)

section \<open>A handshake without a key line\<close>

text \<open>
  C7: when a buffer is classified as a handshake and none of its lines starts with
  \<open>Sec-WebSocket-Key\<close>, the handshake handler, and so the dispatcher, makes no call on
  the socket: nothing is written, the socket is not ended, the state is as before.
\<close>

theorem handshake_without_key_line:
  "isWebSocketHandshake data \<Longrightarrow>
   \<forall>header \<in> set (split (toString data) (js CRLF)).
      \<not> prefix (js ''Sec-WebSocket-Key'') header \<Longrightarrow>
   handleWebSocketHandshake data socket srv = srv \<and> onData data socket srv = Inr srv"
proof -
  assume h: "isWebSocketHandshake data"
    and n: "\<forall>header \<in> set (split (toString data) (js CRLF)).
              \<not> prefix (js ''Sec-WebSocket-Key'') header"
  from n have "find (\<lambda>header. startsWith header (js ''Sec-WebSocket-Key''))
                 (split (toString data) (js CRLF)) = None"
    by (simp add: find_None_iff startsWith_iff_prefix)
  then have "handleWebSocketHandshake data socket srv = srv"
    by (simp add: handleWebSocketHandshake_def handshakeKey_def)
  with h show ?thesis
    by (simp add: onData_def classify_def)
qed

theorem handshake_without_key_line_witness:
  "isWebSocketHandshake (ascii (''GET / HTTP/1.1'' @ CRLF @ ''X: Sec-WebSocket-Key'' @ CRLF @ CRLF)) \<and>
   handleWebSocketHandshake
     (ascii (''GET / HTTP/1.1'' @ CRLF @ ''X: Sec-WebSocket-Key'' @ CRLF @ CRLF)) 0 idle = idle \<and>
   onData (ascii (''GET / HTTP/1.1'' @ CRLF @ ''X: Sec-WebSocket-Key'' @ CRLF @ CRLF)) 0 idle
     = Inr idle"
  using handshake_without_key_line
    [of "ascii (''GET / HTTP/1.1'' @ CRLF @ ''X: Sec-WebSocket-Key'' @ CRLF @ CRLF)" 0 idle]
  by (simp add: isWebSocketHandshake_def str_eval)

section \<open>The length of a decoded payload\<close>

text \<open>
  C8, as the code has it: the decoder does not check the declared length against the
  bytes it received. For every buffer it decodes (a buffer is shorter than \<open>2 ^ 53\<close>
  bytes), the payload after unmasking has as many bytes as were declared or as follow the
  header and masking key, whichever is less; it has the declared length exactly when the
  buffer holds that many bytes after the header.
\<close>

theorem payload_length:
  "decodeFrame xs = Inr f \<Longrightarrow> length xs < 2 ^ 53 \<Longrightarrow>
   length (payloadData f) = min (payloadLength f) (length xs - offset f)"
  by (simp add: decodeFrame_payload length_payload_slice)

theorem payload_length_witness:
  "decodeFrame [0x81, 0x85, 1, 2, 3, 4, 0x69, 0x67, 0x6f, 0x68, 0x6e] =
     Inr \<lparr>fin = 0x80, opcode = 1, mask' = 0x80, payloadLength = 5, offset = 6,
          maskingKey = Some [1, 2, 3, 4], payloadData = ascii ''hello''\<rparr> \<and>
   length (ascii ''hello'') = min 5 (length [0x81, 0x85, 1, 2, 3, 4, 0x69, 0x67, 0x6f, 0x68, 0x6e :: byte] - 6)"
proof -
  have d: "decodeFrame [0x81, 0x85, 1, 2, 3, 4, 0x69, 0x67, 0x6f, 0x68, 0x6e] =
     Inr \<lparr>fin = 0x80, opcode = 1, mask' = 0x80, payloadLength = 5, offset = 6,
          maskingKey = Some [1, 2, 3, 4], payloadData = ascii ''hello''\<rparr>"
    by (simp add: frame_eval ascii_def)
  from payload_length [OF d] d show ?thesis
    by simp
qed

text \<open>
  A buffer that ends before the declared length: 5 bytes are declared, 1 is there, and
  the payload has 1 byte.
\<close>

theorem payload_length_counterexample:
  "decodeFrame [0x81, 0x05, 0x68] =
     Inr \<lparr>fin = 0x80, opcode = 1, mask' = 0, payloadLength = 5, offset = 2,
          maskingKey = None, payloadData = [0x68]\<rparr> \<and>
   length [0x68 :: byte] \<noteq> 5"
  by (simp add: frame_eval)

section \<open>The frame encoder\<close>

text \<open>
  C10: for a text whose UTF-8 encoding has \<open>L\<close> bytes, the encoder emits the byte
  \<open>0x81\<close>, one length byte equal to \<open>L mod 256\<close> and the \<open>L\<close> payload bytes, so
  \<open>2 + L\<close> bytes and never an extended length; for \<open>128 \<le> L \<le> 255\<close> the length byte has
  its top bit, the mask bit, set. \<open>sendWebSocketFrame\<close> writes exactly this frame.
\<close>

theorem encoder_frame_shape:
  "encodeFrame message = [0x81, of_nat (length (Buffer_from message))] @ Buffer_from message \<and>
   length (encodeFrame message) = 2 + length (Buffer_from message) \<and>
   encodeFrame message ! 0 = 0x81 \<and>
   unat (encodeFrame message ! 1) = length (Buffer_from message) mod 256 \<and>
   (128 \<le> length (Buffer_from message) \<and> length (Buffer_from message) \<le> 255
      \<longrightarrow> bit (encodeFrame message ! 1) 7) \<and>
   calls (sendWebSocketFrame socket message srv) socket
     = calls srv socket @ [Write (encodeFrame message)]"
  by (simp add: encodeFrame_eq unat_of_nat_byte of_nat_top_bit sendWebSocketFrame_def
      socket_write_def)

theorem encoder_frame_shape_witness:
  "128 \<le> length (Buffer_from (replicate 43 0x20AC)) \<and>
   length (Buffer_from (replicate 43 0x20AC)) \<le> 255 \<and>
   bit (encodeFrame (replicate 43 0x20AC) ! 1) 7"
  using encoder_frame_shape [of "replicate 43 0x20AC"]
  by (simp add: replicate_numeral utf8_eval)

end
